theory Spec2Isabelle
  imports Main "HOL-Library.Word"
begin

section \<open>The kernel interface that mysuspend.c is written against\<close>

text \<open>
  mysuspend.c is a Linux (Android) kernel module. Everything it does is a call into the
  kernel: \<open>printk\<close>, the timer, workqueue and alarm primitives, the two notifier chains
  and the wake lock. The module is embedded as functions that append the calls they make,
  in program order, to a trace; what the kernel hands back (clock readings, return
  values) is read from an explicit environment.

  Machine types are those of the 32-bit targets the Android APIs used here were shipped
  for: \<open>unsigned long\<close> and \<open>long\<close> are 32 bits wide, \<open>u64\<close> and the scalar
  \<open>ktime_t\<close> 64 bits. A signed type is the word of its width, read with \<open>sint\<close>.
  No statement below depends on the width of \<open>unsigned long\<close>.
\<close>

type_synonym ulong = "32 word"
type_synonym long = "32 word"
type_synonym uint = "32 word"
type_synonym u64 = "64 word"
type_synonym ktime_t = "64 word"

text \<open>A pointer argument of a callback; the module never dereferences one.\<close>

type_synonym ptr = nat

record timespec =
  tv_sec :: long
  tv_nsec :: long

datatype loglevel = KERN_INFO

datatype printk_arg = Arg_s string | Arg_lu ulong

datatype alarm_type = ANDROID_ALARM_RTC_WAKEUP

datatype wake_lock_type = WAKE_LOCK_SUSPEND

datatype es_level = EARLY_SUSPEND_LEVEL_DISABLE_FB

text \<open>The functions of the module whose address is handed to the kernel.\<close>

datatype callback =
    My_delayed_work_handler
  | My_timer_handler
  | My_alarm_handler
  | My_pm_handler
  | My_early_suspend_handler
  | My_early_resume_handler

record notifier_block =
  notifier_call :: callback

record early_suspend =
  suspend :: callback
  resume :: callback
  level :: es_level

text \<open>
  One constructor per kernel function the module calls, with the arguments the module
  computes. The object argument (\<open>&my_timer\<close>, \<open>&my_delayed_work\<close>, \<open>&my_alarm\<close>,
  \<open>&my_wake_lock\<close>) is left out: each is the single static object of that name.
\<close>

datatype host_call =
    Printk loglevel string "printk_arg list"
  | Schedule_delayed_work ulong
  | Cancel_delayed_work_sync
  | Mod_timer ulong
  | Del_timer_sync
  | Alarm_init alarm_type callback
  | Alarm_start_range ktime_t ktime_t
  | Alarm_cancel
  | Register_pm_notifier notifier_block
  | Unregister_pm_notifier notifier_block
  | Register_early_suspend early_suspend
  | Unregister_early_suspend early_suspend
  | Wake_lock_init wake_lock_type string
  | Wake_lock
  | Wake_unlock
  | Wake_lock_destroy

type_synonym trace = "host_call list"

text \<open>
  What the kernel headers fix at build time and the source only names: the event codes
  of \<open>linux/suspend.h\<close>, the acknowledgements of \<open>linux/notifier.h\<close>, and the
  conversion helpers \<open>msecs_to_jiffies\<close>, \<open>ns_to_ktime\<close> and \<open>ktime_add\<close>. They are
  parameters of the embedding.
\<close>

record kconfig =
  PM_HIBERNATION_PREPARE :: ulong
  PM_POST_HIBERNATION :: ulong
  PM_SUSPEND_PREPARE :: ulong
  PM_POST_SUSPEND :: ulong
  NOTIFY_DONE :: int
  NOTIFY_OK :: int
  msecs_to_jiffies :: "uint \<Rightarrow> ulong"
  ns_to_ktime :: "u64 \<Rightarrow> ktime_t"
  ktime_add :: "ktime_t \<Rightarrow> ktime_t \<Rightarrow> ktime_t"

text \<open>
  What the kernel hands back during one entry into the module: the clocks (each entry
  point reads each clock at most once) and the return value of every kernel function
  that has one.
\<close>

record host =
  jiffies :: ulong
  getnstimeofday :: timespec
  ktime_get_real :: ktime_t
  ret_schedule_delayed_work :: int
  ret_mod_timer :: int
  ret_register_pm_notifier :: int
  ret_cancel_delayed_work_sync :: int
  ret_del_timer_sync :: int
  ret_alarm_cancel :: int
  ret_unregister_pm_notifier :: int

text \<open>A call whose result is returned to the caller, and a call of a void function.\<close>

definition kcall :: "host_call \<Rightarrow> 'r \<Rightarrow> trace \<Rightarrow> 'r \<times> trace" where
  "kcall c r t = (r, t @ [c])"

definition kcall_void :: "host_call \<Rightarrow> trace \<Rightarrow> trace" where
  "kcall_void c t = t @ [c]"

text \<open>
  Modelled from the spec: \<open>MSEC_PER_SEC\<close> and \<open>NSEC_PER_MSEC\<close> are defined in
  \<open>linux/time.h\<close>, which is not part of the source. The spec gives the periods written
  \<open>1ULL * MSEC_PER_SEC\<close> and \<open>10ULL * MSEC_PER_SEC\<close> milliseconds as 1 s and 10 s, so
  \<open>MSEC_PER_SEC\<close> is 1000; \<open>NSEC_PER_MSEC\<close> is the number of nanoseconds in a
  millisecond.
\<close>

definition MSEC_PER_SEC :: nat where
  "MSEC_PER_SEC = 1000"

definition NSEC_PER_MSEC :: nat where
  "NSEC_PER_MSEC = 1000000"

section \<open>The module\<close>

text \<open>
  The source switches each of its six features on (\<open>#define ENABLE_MY_...\<close>), so the
  functions embedded are those of the \<open>#ifdef\<close> branches, not the empty stubs.
\<close>

definition MY_DBG :: "string \<Rightarrow> printk_arg list \<Rightarrow> trace \<Rightarrow> trace" where
  "MY_DBG fmt args = kcall_void (Printk KERN_INFO (''[mysuspend] '' @ fmt) args)"

definition get_my_seconds :: "host \<Rightarrow> ulong" where
  "get_my_seconds h = (let now = getnstimeofday h in ucast (tv_sec now))"

subsection \<open>Delayed work\<close>

definition WORK_PERIOD_MS :: u64 where
  "WORK_PERIOD_MS = 1 * of_nat MSEC_PER_SEC"

definition my_delayed_work_start :: "kconfig \<Rightarrow> host \<Rightarrow> trace \<Rightarrow> trace" where
  "my_delayed_work_start k h t =
     snd (kcall (Schedule_delayed_work (msecs_to_jiffies k (ucast WORK_PERIOD_MS)))
            (ret_schedule_delayed_work h) t)"

definition my_delayed_work_stop :: "host \<Rightarrow> trace \<Rightarrow> trace" where
  "my_delayed_work_stop h t =
     snd (kcall Cancel_delayed_work_sync (ret_cancel_delayed_work_sync h) t)"

definition my_delayed_work_handler :: "kconfig \<Rightarrow> host \<Rightarrow> ptr \<Rightarrow> trace \<Rightarrow> trace" where
  "my_delayed_work_handler k h work t =
     (let t = MY_DBG ''%s: %lu\<newline>''
                [Arg_s ''my_delayed_work_handler'', Arg_lu (get_my_seconds h)] t
      in my_delayed_work_start k h t)"

subsection \<open>Timer\<close>

definition TIMER_PERIOD_MS :: u64 where
  "TIMER_PERIOD_MS = 1 * of_nat MSEC_PER_SEC"

definition my_timer_start :: "kconfig \<Rightarrow> host \<Rightarrow> trace \<Rightarrow> trace" where
  "my_timer_start k h t =
     snd (kcall (Mod_timer (jiffies h + msecs_to_jiffies k (ucast TIMER_PERIOD_MS)))
            (ret_mod_timer h) t)"

definition my_timer_handler :: "kconfig \<Rightarrow> host \<Rightarrow> ulong \<Rightarrow> trace \<Rightarrow> trace" where
  "my_timer_handler k h data t =
     (let t = MY_DBG ''%s: %lu\<newline>''
                [Arg_s ''my_timer_handler'', Arg_lu (get_my_seconds h)] t
      in my_timer_start k h t)"

definition my_timer_stop :: "host \<Rightarrow> trace \<Rightarrow> trace" where
  "my_timer_stop h t = snd (kcall Del_timer_sync (ret_del_timer_sync h) t)"

subsection \<open>Alarm\<close>

definition ALARM_PERIOD_MS :: u64 where
  "ALARM_PERIOD_MS = 10 * of_nat MSEC_PER_SEC"

definition my_alarm_shot :: "kconfig \<Rightarrow> host \<Rightarrow> trace \<Rightarrow> trace" where
  "my_alarm_shot k h t =
     (let now = ktime_get_real h;
          expire = ktime_add k now (ns_to_ktime k (ALARM_PERIOD_MS * of_nat NSEC_PER_MSEC))
      in kcall_void (Alarm_start_range expire expire) t)"

definition my_alarm_handler :: "kconfig \<Rightarrow> host \<Rightarrow> ptr \<Rightarrow> trace \<Rightarrow> trace" where
  "my_alarm_handler k h alarm t =
     (let t = MY_DBG ''%s: %lu\<newline>''
                [Arg_s ''my_alarm_handler'', Arg_lu (get_my_seconds h)] t
      in my_alarm_shot k h t)"

definition my_alarm_start :: "kconfig \<Rightarrow> host \<Rightarrow> trace \<Rightarrow> trace" where
  "my_alarm_start k h t =
     (let t = kcall_void (Alarm_init ANDROID_ALARM_RTC_WAKEUP My_alarm_handler) t
      in my_alarm_shot k h t)"

definition my_alarm_stop :: "host \<Rightarrow> trace \<Rightarrow> trace" where
  "my_alarm_stop h t = snd (kcall Alarm_cancel (ret_alarm_cancel h) t)"

subsection \<open>PM notifier\<close>

definition my_pm_handler ::
  "kconfig \<Rightarrow> ptr \<Rightarrow> ulong \<Rightarrow> ptr \<Rightarrow> trace \<Rightarrow> int \<times> trace" where
  "my_pm_handler k nfb action data t =
     (if action = PM_HIBERNATION_PREPARE k \<or> action = PM_SUSPEND_PREPARE k then
        (let t = MY_DBG ''%s: suspend\<newline>'' [Arg_s ''my_pm_handler''] t
         in (NOTIFY_OK k, t))
      else if action = PM_POST_HIBERNATION k \<or> action = PM_POST_SUSPEND k then
        (let t = MY_DBG ''%s: resume\<newline>'' [Arg_s ''my_pm_handler''] t
         in (NOTIFY_OK k, t))
      else (NOTIFY_DONE k, t))"

definition my_pm_notifier :: notifier_block where
  "my_pm_notifier = \<lparr>notifier_call = My_pm_handler\<rparr>"

definition my_pm_notifier_start :: "host \<Rightarrow> trace \<Rightarrow> trace" where
  "my_pm_notifier_start h t =
     snd (kcall (Register_pm_notifier my_pm_notifier) (ret_register_pm_notifier h) t)"

definition my_pm_notifier_stop :: "host \<Rightarrow> trace \<Rightarrow> trace" where
  "my_pm_notifier_stop h t =
     snd (kcall (Unregister_pm_notifier my_pm_notifier) (ret_unregister_pm_notifier h) t)"

subsection \<open>Early suspend\<close>

definition my_early_suspend_handler :: "ptr \<Rightarrow> trace \<Rightarrow> trace" where
  "my_early_suspend_handler handler t =
     MY_DBG ''%s\<newline>'' [Arg_s ''my_early_suspend_handler''] t"

definition my_early_resume_handler :: "ptr \<Rightarrow> trace \<Rightarrow> trace" where
  "my_early_resume_handler handler t =
     MY_DBG ''%s\<newline>'' [Arg_s ''my_early_resume_handler''] t"

definition my_early_suspend :: early_suspend where
  "my_early_suspend =
     \<lparr>suspend = My_early_suspend_handler,
      resume = My_early_resume_handler,
      level = EARLY_SUSPEND_LEVEL_DISABLE_FB\<rparr>"

definition my_early_suspend_start :: "trace \<Rightarrow> trace" where
  "my_early_suspend_start t = kcall_void (Register_early_suspend my_early_suspend) t"

definition my_early_suspend_stop :: "trace \<Rightarrow> trace" where
  "my_early_suspend_stop t = kcall_void (Unregister_early_suspend my_early_suspend) t"

subsection \<open>Wake lock\<close>

definition my_wake_lock_start :: "trace \<Rightarrow> trace" where
  "my_wake_lock_start t =
     (let t = kcall_void (Wake_lock_init WAKE_LOCK_SUSPEND ''my_wake_lock'') t
      in kcall_void Wake_lock t)"

definition my_wake_lock_stop :: "trace \<Rightarrow> trace" where
  "my_wake_lock_stop t =
     (let t = kcall_void Wake_unlock t
      in kcall_void Wake_lock_destroy t)"

subsection \<open>Module entry and exit\<close>

definition my_init :: "kconfig \<Rightarrow> host \<Rightarrow> trace \<Rightarrow> int \<times> trace" where
  "my_init k h t =
     (let t = my_wake_lock_start t;
          t = my_pm_notifier_start h t;
          t = my_early_suspend_start t;
          t = my_delayed_work_start k h t;
          t = my_timer_start k h t;
          t = my_alarm_start k h t
      in (0, t))"

definition my_exit :: "host \<Rightarrow> trace \<Rightarrow> trace" where
  "my_exit h t =
     (let t = my_alarm_stop h t;
          t = my_timer_stop h t;
          t = my_delayed_work_stop h t;
          t = my_pm_notifier_stop h t;
          t = my_early_suspend_stop t;
          t = my_wake_lock_stop t
      in t)"

section \<open>Reading a trace\<close>

text \<open>
  The six features of the module, named as its \<open>ENABLE_MY_...\<close> switches name them, and
  the feature each kernel call belongs to (\<open>printk\<close> belongs to none).
\<close>

datatype feature =
    MY_DELAYED_WORK
  | MY_TIMER
  | MY_WAKE_LOCK
  | MY_ALARM
  | MY_PM_NOTIFIER
  | MY_EARLY_SUSPEND

fun feature_of :: "host_call \<Rightarrow> feature option" where
  "feature_of (Printk l f as) = None"
| "feature_of (Schedule_delayed_work d) = Some MY_DELAYED_WORK"
| "feature_of Cancel_delayed_work_sync = Some MY_DELAYED_WORK"
| "feature_of (Mod_timer e) = Some MY_TIMER"
| "feature_of Del_timer_sync = Some MY_TIMER"
| "feature_of (Alarm_init ty f) = Some MY_ALARM"
| "feature_of (Alarm_start_range s e) = Some MY_ALARM"
| "feature_of Alarm_cancel = Some MY_ALARM"
| "feature_of (Register_pm_notifier n) = Some MY_PM_NOTIFIER"
| "feature_of (Unregister_pm_notifier n) = Some MY_PM_NOTIFIER"
| "feature_of (Register_early_suspend e) = Some MY_EARLY_SUSPEND"
| "feature_of (Unregister_early_suspend e) = Some MY_EARLY_SUSPEND"
| "feature_of (Wake_lock_init ty n) = Some MY_WAKE_LOCK"
| "feature_of Wake_lock = Some MY_WAKE_LOCK"
| "feature_of Wake_unlock = Some MY_WAKE_LOCK"
| "feature_of Wake_lock_destroy = Some MY_WAKE_LOCK"

text \<open>
  The steps of a trace: the feature of each call, consecutive calls of one feature (the
  two calls of \<open>my_wake_lock_start\<close>, say) counted as one step.
\<close>

definition steps_of :: "trace \<Rightarrow> feature list" where
  "steps_of t = remdups_adj (List.map_filter feature_of t)"

text \<open>
  A configuration and two environments to run the module on: the event codes and
  acknowledgements of Linux 3.0, \<open>HZ = 100\<close>, scalar \<open>ktime_t\<close>; a host 50 ticks
  before \<open>jiffies\<close> wraps around, at midnight of 1 January 2012; and the same host
  with \<open>register_pm_notifier\<close> failing with \<open>-ENOMEM\<close>.
\<close>

definition linux_hz100 :: kconfig where
  "linux_hz100 =
     \<lparr>PM_HIBERNATION_PREPARE = 1,
      PM_POST_HIBERNATION = 2,
      PM_SUSPEND_PREPARE = 3,
      PM_POST_SUSPEND = 4,
      NOTIFY_DONE = 0,
      NOTIFY_OK = 1,
      msecs_to_jiffies = (\<lambda>m. (m + 9) div 10),
      ns_to_ktime = ucast,
      ktime_add = (+)\<rparr>"

definition host0 :: host where
  "host0 =
     \<lparr>jiffies = 4294967246,
      getnstimeofday = \<lparr>tv_sec = 1325376000, tv_nsec = 0\<rparr>,
      ktime_get_real = 1325376000000000000,
      ret_schedule_delayed_work = 1,
      ret_mod_timer = 0,
      ret_register_pm_notifier = 0,
      ret_cancel_delayed_work_sync = 1,
      ret_del_timer_sync = 1,
      ret_alarm_cancel = 1,
      ret_unregister_pm_notifier = 0\<rparr>"

definition host_enomem :: host where
  "host_enomem = host0\<lparr>ret_register_pm_notifier := - 12\<rparr>"

text \<open>The calls that touch the wake lock.\<close>

definition is_wake_lock_call :: "host_call \<Rightarrow> bool" where
  "is_wake_lock_call c = (feature_of c = Some MY_WAKE_LOCK)"

text \<open>
  The calls of the three resource and observer features (wake lock, pm notifier, early
  suspend) and the calls of the three periodic activities (delayed work, timer, alarm).
\<close>

definition is_resource_call :: "host_call \<Rightarrow> bool" where
  "is_resource_call c =
     (feature_of c = Some MY_WAKE_LOCK \<or> feature_of c = Some MY_PM_NOTIFIER
      \<or> feature_of c = Some MY_EARLY_SUSPEND)"

definition is_activity_call :: "host_call \<Rightarrow> bool" where
  "is_activity_call c =
     (feature_of c = Some MY_DELAYED_WORK \<or> feature_of c = Some MY_TIMER
      \<or> feature_of c = Some MY_ALARM)"

text \<open>
  \<open>all_before P Q xs\<close>: once an element satisfying \<open>Q\<close> has occurred in \<open>xs\<close>, none
  satisfying \<open>P\<close> occurs, at that position or later.
\<close>

fun all_before :: "('a \<Rightarrow> bool) \<Rightarrow> ('a \<Rightarrow> bool) \<Rightarrow> 'a list \<Rightarrow> bool" where
  "all_before P Q [] = True"
| "all_before P Q (x # xs) =
     ((if Q x then \<not> P x \<and> list_all (\<lambda>y. \<not> P y) xs else True) \<and> all_before P Q xs)"

subsection \<open>The module's life between load and unload\<close>

text \<open>
  \<open>module_init(my_init)\<close> and \<open>module_exit(my_exit)\<close>: the kernel calls \<open>my_init\<close>
  at load and \<open>my_exit\<close> at unload. In between it calls the functions the module has
  registered, each with the environment of that moment.
\<close>

datatype event =
    Work_fires host ptr
  | Timer_fires host ulong
  | Alarm_fires host ptr
  | Pm_notify ptr ulong ptr
  | Early_suspend ptr
  | Early_resume ptr

fun deliver :: "kconfig \<Rightarrow> event \<Rightarrow> trace \<Rightarrow> trace" where
  "deliver k (Work_fires h work) t = my_delayed_work_handler k h work t"
| "deliver k (Timer_fires h data) t = my_timer_handler k h data t"
| "deliver k (Alarm_fires h alarm) t = my_alarm_handler k h alarm t"
| "deliver k (Pm_notify nfb action data) t = snd (my_pm_handler k nfb action data t)"
| "deliver k (Early_suspend handler) t = my_early_suspend_handler handler t"
| "deliver k (Early_resume handler) t = my_early_resume_handler handler t"

fun run :: "kconfig \<Rightarrow> event list \<Rightarrow> trace \<Rightarrow> trace" where
  "run k [] t = t"
| "run k (e # es) t = run k es (deliver k e t)"

definition lifecycle :: "kconfig \<Rightarrow> host \<Rightarrow> event list \<Rightarrow> host \<Rightarrow> trace" where
  "lifecycle k h es h' = my_exit h' (run k es (snd (my_init k h [])))"

section \<open>What each function appends to the trace\<close>

lemma period_values:
  "WORK_PERIOD_MS = 1000" "TIMER_PERIOD_MS = 1000" "ALARM_PERIOD_MS = 10000"
  by (simp_all add: WORK_PERIOD_MS_def TIMER_PERIOD_MS_def ALARM_PERIOD_MS_def
        MSEC_PER_SEC_def)

lemma alarm_period_ns: "ALARM_PERIOD_MS * of_nat NSEC_PER_MSEC = 10000000000"
  by (simp add: ALARM_PERIOD_MS_def MSEC_PER_SEC_def NSEC_PER_MSEC_def)

lemma my_delayed_work_start_trace:
  "my_delayed_work_start k h t = t @ [Schedule_delayed_work (msecs_to_jiffies k 1000)]"
  by (simp add: my_delayed_work_start_def kcall_def period_values)

lemma my_timer_start_trace:
  "my_timer_start k h t = t @ [Mod_timer (jiffies h + msecs_to_jiffies k 1000)]"
  by (simp add: my_timer_start_def kcall_def period_values)

lemma my_alarm_shot_trace:
  "my_alarm_shot k h t =
     t @ [Alarm_start_range
            (ktime_add k (ktime_get_real h) (ns_to_ktime k 10000000000))
            (ktime_add k (ktime_get_real h) (ns_to_ktime k 10000000000))]"
  by (simp add: my_alarm_shot_def kcall_void_def alarm_period_ns Let_def)

lemma my_alarm_start_trace:
  "my_alarm_start k h t =
     t @ [Alarm_init ANDROID_ALARM_RTC_WAKEUP My_alarm_handler,
          Alarm_start_range
            (ktime_add k (ktime_get_real h) (ns_to_ktime k 10000000000))
            (ktime_add k (ktime_get_real h) (ns_to_ktime k 10000000000))]"
  by (simp add: my_alarm_start_def my_alarm_shot_trace kcall_void_def Let_def)

lemma my_wake_lock_start_trace:
  "my_wake_lock_start t = t @ [Wake_lock_init WAKE_LOCK_SUSPEND ''my_wake_lock'', Wake_lock]"
  by (simp add: my_wake_lock_start_def kcall_void_def Let_def)

lemma my_wake_lock_stop_trace:
  "my_wake_lock_stop t = t @ [Wake_unlock, Wake_lock_destroy]"
  by (simp add: my_wake_lock_stop_def kcall_void_def Let_def)

lemmas start_traces =
  my_wake_lock_start_trace my_delayed_work_start_trace my_timer_start_trace
  my_alarm_start_trace my_pm_notifier_start_def my_early_suspend_start_def
  kcall_def kcall_void_def

lemmas stop_traces =
  my_wake_lock_stop_trace my_delayed_work_stop_def my_timer_stop_def my_alarm_stop_def
  my_pm_notifier_stop_def my_early_suspend_stop_def kcall_def kcall_void_def

lemma my_init_trace:
  "snd (my_init k h t) =
     t @ [Wake_lock_init WAKE_LOCK_SUSPEND ''my_wake_lock'',
          Wake_lock,
          Register_pm_notifier my_pm_notifier,
          Register_early_suspend my_early_suspend,
          Schedule_delayed_work (msecs_to_jiffies k 1000),
          Mod_timer (jiffies h + msecs_to_jiffies k 1000),
          Alarm_init ANDROID_ALARM_RTC_WAKEUP My_alarm_handler,
          Alarm_start_range
            (ktime_add k (ktime_get_real h) (ns_to_ktime k 10000000000))
            (ktime_add k (ktime_get_real h) (ns_to_ktime k 10000000000))]"
  by (simp add: my_init_def start_traces Let_def)

lemma my_exit_trace:
  "my_exit h t =
     t @ [Alarm_cancel,
          Del_timer_sync,
          Cancel_delayed_work_sync,
          Unregister_pm_notifier my_pm_notifier,
          Unregister_early_suspend my_early_suspend,
          Wake_unlock,
          Wake_lock_destroy]"
  by (simp add: my_exit_def stop_traces Let_def)

lemma my_delayed_work_handler_trace:
  "my_delayed_work_handler k h work t =
     t @ [Printk KERN_INFO ''[mysuspend] %s: %lu\<newline>''
            [Arg_s ''my_delayed_work_handler'', Arg_lu (ucast (tv_sec (getnstimeofday h)))],
          Schedule_delayed_work (msecs_to_jiffies k 1000)]"
  by (simp add: my_delayed_work_handler_def MY_DBG_def get_my_seconds_def kcall_void_def
        my_delayed_work_start_trace Let_def)

lemma my_timer_handler_trace:
  "my_timer_handler k h data t =
     t @ [Printk KERN_INFO ''[mysuspend] %s: %lu\<newline>''
            [Arg_s ''my_timer_handler'', Arg_lu (ucast (tv_sec (getnstimeofday h)))],
          Mod_timer (jiffies h + msecs_to_jiffies k 1000)]"
  by (simp add: my_timer_handler_def MY_DBG_def get_my_seconds_def kcall_void_def
        my_timer_start_trace Let_def)

lemma my_alarm_handler_trace:
  "my_alarm_handler k h alarm t =
     t @ [Printk KERN_INFO ''[mysuspend] %s: %lu\<newline>''
            [Arg_s ''my_alarm_handler'', Arg_lu (ucast (tv_sec (getnstimeofday h)))],
          Alarm_start_range
            (ktime_add k (ktime_get_real h) (ns_to_ktime k 10000000000))
            (ktime_add k (ktime_get_real h) (ns_to_ktime k 10000000000))]"
  by (simp add: my_alarm_handler_def MY_DBG_def get_my_seconds_def kcall_void_def
        my_alarm_shot_trace Let_def)

text \<open>
  The module run on the concrete host: load, and a whole life with one timer firing, a
  suspend notification and a notification the handler does not know. The timer is armed
  at tick 50, one second past the wrap-around of \<open>jiffies\<close>.
\<close>

lemma my_init_example:
  "my_init linux_hz100 host0 [] =
     (0, [Wake_lock_init WAKE_LOCK_SUSPEND ''my_wake_lock'',
          Wake_lock,
          Register_pm_notifier my_pm_notifier,
          Register_early_suspend my_early_suspend,
          Schedule_delayed_work 100,
          Mod_timer 50,
          Alarm_init ANDROID_ALARM_RTC_WAKEUP My_alarm_handler,
          Alarm_start_range 1325376010000000000 1325376010000000000])"
  by (simp add: my_init_def start_traces Let_def linux_hz100_def host0_def)

lemma lifecycle_example:
  "lifecycle linux_hz100 host0 [Timer_fires host0 0, Pm_notify 0 3 0, Pm_notify 0 7 0] host0 =
     [Wake_lock_init WAKE_LOCK_SUSPEND ''my_wake_lock'',
      Wake_lock,
      Register_pm_notifier my_pm_notifier,
      Register_early_suspend my_early_suspend,
      Schedule_delayed_work 100,
      Mod_timer 50,
      Alarm_init ANDROID_ALARM_RTC_WAKEUP My_alarm_handler,
      Alarm_start_range 1325376010000000000 1325376010000000000,
      Printk KERN_INFO ''[mysuspend] %s: %lu\<newline>''
        [Arg_s ''my_timer_handler'', Arg_lu 1325376000],
      Mod_timer 50,
      Printk KERN_INFO ''[mysuspend] %s: suspend\<newline>'' [Arg_s ''my_pm_handler''],
      Alarm_cancel,
      Del_timer_sync,
      Cancel_delayed_work_sync,
      Unregister_pm_notifier my_pm_notifier,
      Unregister_early_suspend my_early_suspend,
      Wake_unlock,
      Wake_lock_destroy]"
  by (simp add: lifecycle_def my_init_trace my_exit_trace my_timer_handler_trace
        my_pm_handler_def MY_DBG_def kcall_void_def Let_def linux_hz100_def host0_def)

section \<open>Startup and shutdown order\<close>

text \<open>
  C3, as stated: \<open>my_init\<close> runs wake lock, pm notifier, early suspend, then the
  activities in the order Timer, DeferredWork, Alarm. The source starts the delayed work
  before the timer, so the stated order is not the order of the code.
\<close>

theorem my_init_order_counterexample:
  "steps_of (snd (my_init linux_hz100 host0 [])) \<noteq>
     [MY_WAKE_LOCK, MY_PM_NOTIFIER, MY_EARLY_SUSPEND, MY_TIMER, MY_DELAYED_WORK, MY_ALARM]"
  by (simp add: my_init_trace steps_of_def List.map_filter_def)

text \<open>
  C3, amended: \<open>my_init\<close> executes its six startup steps in the fixed order: take the
  wake lock (\<open>wake_lock_init\<close>, then \<open>wake_lock\<close>), register the pm notifier,
  register the early-suspend handler, then start the three periodic activities in the
  order delayed work (\<open>schedule_delayed_work\<close>), timer (\<open>mod_timer\<close>), alarm
  (\<open>alarm_init\<close>, then the first \<open>alarm_start_range\<close>). These eight kernel calls,
  with these arguments, are all that \<open>my_init\<close> adds to the trace, whatever came
  before and whatever the kernel answers.
\<close>

theorem my_init_order:
  "snd (my_init k h t) =
     t @ [Wake_lock_init WAKE_LOCK_SUSPEND ''my_wake_lock'',
          Wake_lock,
          Register_pm_notifier \<lparr>notifier_call = My_pm_handler\<rparr>,
          Register_early_suspend
            \<lparr>suspend = My_early_suspend_handler, resume = My_early_resume_handler,
             level = EARLY_SUSPEND_LEVEL_DISABLE_FB\<rparr>,
          Schedule_delayed_work (msecs_to_jiffies k 1000),
          Mod_timer (jiffies h + msecs_to_jiffies k 1000),
          Alarm_init ANDROID_ALARM_RTC_WAKEUP My_alarm_handler,
          Alarm_start_range
            (ktime_add k (ktime_get_real h) (ns_to_ktime k 10000000000))
            (ktime_add k (ktime_get_real h) (ns_to_ktime k 10000000000))]
   \<and> steps_of (snd (my_init k h [])) =
     [MY_WAKE_LOCK, MY_PM_NOTIFIER, MY_EARLY_SUSPEND, MY_DELAYED_WORK, MY_TIMER, MY_ALARM]
   \<and> map feature_of (drop (length t) (snd (my_init k h t))) =
     [Some MY_WAKE_LOCK, Some MY_WAKE_LOCK, Some MY_PM_NOTIFIER, Some MY_EARLY_SUSPEND,
      Some MY_DELAYED_WORK, Some MY_TIMER, Some MY_ALARM, Some MY_ALARM]"
  by (simp add: my_init_trace steps_of_def List.map_filter_def my_pm_notifier_def
        my_early_suspend_def)

text \<open>
  C2, as stated: \<open>my_exit\<close> tears down in the exact reverse of the startup order, namely
  Alarm, DeferredWork, Timer, early suspend, pm notifier, wake lock. The source stops the
  timer before the delayed work and unregisters the pm notifier before the early-suspend
  handler: its order is neither the stated one nor the reverse of \<open>my_init\<close>'s.
\<close>

theorem my_exit_order_counterexample:
  "steps_of (my_exit host0 []) \<noteq>
     [MY_ALARM, MY_DELAYED_WORK, MY_TIMER, MY_EARLY_SUSPEND, MY_PM_NOTIFIER, MY_WAKE_LOCK]
   \<and> steps_of (my_exit host0 []) \<noteq> rev (steps_of (snd (my_init linux_hz100 host0 [])))"
  by (simp add: my_init_trace my_exit_trace steps_of_def List.map_filter_def)

text \<open>
  C2, amended: \<open>my_exit\<close> executes its six teardown steps in the fixed order alarm
  (\<open>alarm_cancel\<close>), timer (\<open>del_timer_sync\<close>), delayed work
  (\<open>cancel_delayed_work_sync\<close>), pm notifier unregistration, early-suspend
  unregistration, wake lock (unlock, then destroy). The three activities are stopped in
  the reverse of the order in which \<open>my_init\<close> starts them and the wake lock, taken
  first, is released last; the two observers are unregistered in the order in which they
  were registered.
\<close>

theorem my_exit_order:
  "steps_of (my_exit h []) =
     [MY_ALARM, MY_TIMER, MY_DELAYED_WORK, MY_PM_NOTIFIER, MY_EARLY_SUSPEND, MY_WAKE_LOCK]
   \<and> drop (length t) (my_exit h t) =
     [Alarm_cancel, Del_timer_sync, Cancel_delayed_work_sync,
      Unregister_pm_notifier my_pm_notifier, Unregister_early_suspend my_early_suspend,
      Wake_unlock, Wake_lock_destroy]"
  by (simp add: my_exit_trace steps_of_def List.map_filter_def)

text \<open>
  The recursive test \<open>all_before\<close> says what its name says: every position holding a
  \<open>P\<close> lies strictly before every position holding a \<open>Q\<close>.
\<close>

lemma all_before_iff:
  "all_before P Q xs \<longleftrightarrow>
     (\<forall>i j. i < length xs \<and> j < length xs \<and> P (xs ! i) \<and> Q (xs ! j) \<longrightarrow> i < j)"
proof (induction xs)
  case Nil
  show ?case by simp
next
  case (Cons x xs)
  show ?case
  proof
    assume a: "all_before P Q (x # xs)"
    then have tl: "\<forall>i j. i < length xs \<and> j < length xs \<and> P (xs ! i) \<and> Q (xs ! j) \<longrightarrow> i < j"
      using Cons.IH by simp
    show "\<forall>i j. i < length (x # xs) \<and> j < length (x # xs) \<and> P ((x # xs) ! i) \<and> Q ((x # xs) ! j) \<longrightarrow> i < j"
    proof (intro allI impI)
      fix i j
      assume h: "i < length (x # xs) \<and> j < length (x # xs) \<and> P ((x # xs) ! i) \<and> Q ((x # xs) ! j)"
      show "i < j"
      proof (cases j)
        case 0
        with h have "Q x" by simp
        with a have nx: "\<not> P x" and nxs: "list_all (\<lambda>y. \<not> P y) xs" by simp_all
        show ?thesis
        proof (cases i)
          case 0
          with h nx show ?thesis by simp
        next
          case (Suc i')
          with h have "i' < length xs" "P (xs ! i')" by simp_all
          with nxs show ?thesis by (simp add: list_all_length)
        qed
      next
        case (Suc j')
        show ?thesis
        proof (cases i)
          case 0
          with Suc show ?thesis by simp
        next
          case (Suc i')
          with h \<open>j = Suc j'\<close> tl show ?thesis by simp
        qed
      qed
    qed
  next
    assume r: "\<forall>i j. i < length (x # xs) \<and> j < length (x # xs) \<and> P ((x # xs) ! i) \<and> Q ((x # xs) ! j) \<longrightarrow> i < j"
    have tl: "all_before P Q xs"
    proof -
      have "\<forall>i j. i < length xs \<and> j < length xs \<and> P (xs ! i) \<and> Q (xs ! j) \<longrightarrow> i < j"
      proof (intro allI impI)
        fix i j
        assume "i < length xs \<and> j < length xs \<and> P (xs ! i) \<and> Q (xs ! j)"
        then have "Suc i < Suc j" using r [rule_format, of "Suc i" "Suc j"] by simp
        then show "i < j" by simp
      qed
      then show ?thesis using Cons.IH by simp
    qed
    have hd: "Q x \<Longrightarrow> \<not> P x \<and> list_all (\<lambda>y. \<not> P y) xs"
    proof
      assume q: "Q x"
      show "\<not> P x" using r [rule_format, of 0 0] q by auto
      show "list_all (\<lambda>y. \<not> P y) xs"
        unfolding list_all_length
      proof (intro allI impI)
        fix n assume "n < length xs"
        then show "\<not> P (xs ! n)" using r [rule_format, of "Suc n" 0] q by auto
      qed
    qed
    show "all_before P Q (x # xs)" using tl hd by simp
  qed
qed

text \<open>
  C4: in the calls \<open>my_init\<close> makes, every call of a resource or observer feature (wake
  lock init and acquire, pm-notifier registration, early-suspend registration) comes
  strictly before every call of a periodic activity (delayed work, timer, alarm); in the
  calls \<open>my_exit\<close> makes, every call that cancels a periodic activity comes strictly
  before every call that releases a resource or observer (the two unregistrations, wake
  unlock and destroy).
\<close>

theorem my_init_my_exit_phases:
  "(\<forall>i j. i < length (snd (my_init k h [])) \<and> j < length (snd (my_init k h []))
       \<and> is_resource_call (snd (my_init k h []) ! i)
       \<and> is_activity_call (snd (my_init k h []) ! j) \<longrightarrow> i < j)
   \<and> (\<forall>i j. i < length (my_exit h' []) \<and> j < length (my_exit h' [])
       \<and> is_activity_call (my_exit h' [] ! i)
       \<and> is_resource_call (my_exit h' [] ! j) \<longrightarrow> i < j)"
proof (rule conjI)
  have "all_before is_resource_call is_activity_call (snd (my_init k h []))"
    by (simp add: my_init_trace is_resource_call_def is_activity_call_def)
  then show "\<forall>i j. i < length (snd (my_init k h [])) \<and> j < length (snd (my_init k h []))
       \<and> is_resource_call (snd (my_init k h []) ! i)
       \<and> is_activity_call (snd (my_init k h []) ! j) \<longrightarrow> i < j"
    by (rule all_before_iff [THEN iffD1])
next
  have "all_before is_activity_call is_resource_call (my_exit h' [])"
    by (simp add: my_exit_trace is_resource_call_def is_activity_call_def)
  then show "\<forall>i j. i < length (my_exit h' []) \<and> j < length (my_exit h' [])
       \<and> is_activity_call (my_exit h' [] ! i)
       \<and> is_resource_call (my_exit h' [] ! j) \<longrightarrow> i < j"
    by (rule all_before_iff [THEN iffD1])
qed

text \<open>
  The phases are inhabited: at load the pm-notifier registration (position 2) precedes
  the scheduling of the delayed work (position 4); at unload the cancellation of the
  delayed work (position 2) precedes the pm-notifier unregistration (position 3).
\<close>

theorem my_init_my_exit_phases_witness:
  "(2::nat) < length (snd (my_init linux_hz100 host0 []))
   \<and> (4::nat) < length (snd (my_init linux_hz100 host0 []))
   \<and> is_resource_call (snd (my_init linux_hz100 host0 []) ! 2)
   \<and> is_activity_call (snd (my_init linux_hz100 host0 []) ! 4)
   \<and> (2::nat) < length (my_exit host0 [])
   \<and> (3::nat) < length (my_exit host0 [])
   \<and> is_activity_call (my_exit host0 [] ! 2)
   \<and> is_resource_call (my_exit host0 [] ! 3)
   \<and> (2::nat) < 4 \<and> (2::nat) < 3"
proof -
  have a: "(2::nat) < length (snd (my_init linux_hz100 host0 []))
     \<and> (4::nat) < length (snd (my_init linux_hz100 host0 []))
     \<and> is_resource_call (snd (my_init linux_hz100 host0 []) ! 2)
     \<and> is_activity_call (snd (my_init linux_hz100 host0 []) ! 4)"
    by (simp add: my_init_trace is_resource_call_def is_activity_call_def)
  have b: "(2::nat) < length (my_exit host0 [])
     \<and> (3::nat) < length (my_exit host0 [])
     \<and> is_activity_call (my_exit host0 [] ! 2)
     \<and> is_resource_call (my_exit host0 [] ! 3)"
    by (simp add: my_exit_trace is_resource_call_def is_activity_call_def)
  have c: "(2::nat) < 4"
    using my_init_my_exit_phases [of linux_hz100 host0 host0, THEN conjunct1, rule_format, of 2 4] a
    by simp
  have d: "(2::nat) < 3"
    using my_init_my_exit_phases [of linux_hz100 host0 host0, THEN conjunct2, rule_format, of 2 3] b
    by simp
  from a b c d show ?thesis by simp
qed

section \<open>Failures at startup\<close>

text \<open>
  C5, as stated: a step of \<open>my_init\<close> that fails to register is reported as the
  module's load result and startup is aborted. In a host where \<open>register_pm_notifier\<close>
  returns \<open>-ENOMEM\<close> (\<open>-12\<close>), \<open>my_init\<close> still returns 0 and still runs every
  later step.
\<close>

theorem my_init_failure_counterexample:
  "ret_register_pm_notifier host_enomem < 0
   \<and> fst (my_init linux_hz100 host_enomem []) = 0
   \<and> steps_of (snd (my_init linux_hz100 host_enomem [])) =
       [MY_WAKE_LOCK, MY_PM_NOTIFIER, MY_EARLY_SUSPEND, MY_DELAYED_WORK, MY_TIMER, MY_ALARM]"
  by (simp add: my_init_trace steps_of_def List.map_filter_def host_enomem_def)
    (simp add: my_init_def Let_def)

text \<open>
  C5, amended: \<open>my_init\<close> does no failure handling. It always returns 0, and neither
  its result nor the calls it makes depend on what \<open>register_pm_notifier\<close>,
  \<open>schedule_delayed_work\<close> and \<open>mod_timer\<close> return: all eight kernel calls of the
  six steps are made every time, none is skipped and nothing is unwound.
\<close>

theorem my_init_returns_zero:
  "fst (my_init k h t) = 0
   \<and> my_init k (h\<lparr>ret_register_pm_notifier := r1, ret_schedule_delayed_work := r2,
                  ret_mod_timer := r3\<rparr>) t = my_init k h t
   \<and> length (snd (my_init k h t)) = length t + 8"
proof -
  have "fst (my_init k h t) = 0" for h
    by (simp add: my_init_def Let_def)
  then have "my_init k h t = (0, snd (my_init k h t))" for h
    by (metis prod.collapse)
  then show ?thesis
    by (simp add: my_init_trace)
qed

section \<open>The pm notifier\<close>

text \<open>
  C6: for every event delivered to \<open>my_pm_handler\<close>: for \<open>PM_SUSPEND_PREPARE\<close> and
  \<open>PM_HIBERNATION_PREPARE\<close> it logs exactly one line, "suspend", and returns
  \<open>NOTIFY_OK\<close>; for \<open>PM_POST_SUSPEND\<close> and \<open>PM_POST_HIBERNATION\<close> it logs exactly
  one line, "resume", and returns \<open>NOTIFY_OK\<close>; for every other value it logs nothing
  and returns \<open>NOTIFY_DONE\<close>. It never returns anything but one of these two
  acknowledgements. The four event codes are the labels of one C \<open>switch\<close>, hence
  pairwise distinct.
\<close>

theorem my_pm_handler_ack:
  assumes "distinct [PM_HIBERNATION_PREPARE k, PM_SUSPEND_PREPARE k,
                     PM_POST_HIBERNATION k, PM_POST_SUSPEND k]"
  shows "(action = PM_SUSPEND_PREPARE k \<or> action = PM_HIBERNATION_PREPARE k \<longrightarrow>
            my_pm_handler k nfb action data t =
              (NOTIFY_OK k,
               t @ [Printk KERN_INFO ''[mysuspend] %s: suspend\<newline>'' [Arg_s ''my_pm_handler'']]))
       \<and> (action = PM_POST_SUSPEND k \<or> action = PM_POST_HIBERNATION k \<longrightarrow>
            my_pm_handler k nfb action data t =
              (NOTIFY_OK k,
               t @ [Printk KERN_INFO ''[mysuspend] %s: resume\<newline>'' [Arg_s ''my_pm_handler'']]))
       \<and> (action \<noteq> PM_SUSPEND_PREPARE k \<and> action \<noteq> PM_HIBERNATION_PREPARE k
          \<and> action \<noteq> PM_POST_SUSPEND k \<and> action \<noteq> PM_POST_HIBERNATION k \<longrightarrow>
            my_pm_handler k nfb action data t = (NOTIFY_DONE k, t))
       \<and> (fst (my_pm_handler k nfb action data t) = NOTIFY_OK k
          \<or> fst (my_pm_handler k nfb action data t) = NOTIFY_DONE k)"
  using assms
  by (auto simp add: my_pm_handler_def MY_DBG_def kcall_void_def Let_def)

text \<open>
  With the event codes of Linux: 3 (\<open>PM_SUSPEND_PREPARE\<close>) is logged as a suspend, 2
  (\<open>PM_POST_HIBERNATION\<close>) as a resume, and 5 (\<open>PM_RESTORE_PREPARE\<close>, which the
  handler does not name) is answered with \<open>NOTIFY_DONE\<close> and no log line.
\<close>

theorem my_pm_handler_ack_witness:
  "distinct [PM_HIBERNATION_PREPARE linux_hz100, PM_SUSPEND_PREPARE linux_hz100,
             PM_POST_HIBERNATION linux_hz100, PM_POST_SUSPEND linux_hz100]
   \<and> my_pm_handler linux_hz100 0 3 0 [] =
       (1, [Printk KERN_INFO ''[mysuspend] %s: suspend\<newline>'' [Arg_s ''my_pm_handler'']])
   \<and> my_pm_handler linux_hz100 0 2 0 [] =
       (1, [Printk KERN_INFO ''[mysuspend] %s: resume\<newline>'' [Arg_s ''my_pm_handler'']])
   \<and> my_pm_handler linux_hz100 0 5 0 [] = (0, [])"
proof -
  have d: "distinct [PM_HIBERNATION_PREPARE linux_hz100, PM_SUSPEND_PREPARE linux_hz100,
                     PM_POST_HIBERNATION linux_hz100, PM_POST_SUSPEND linux_hz100]"
    by (simp add: linux_hz100_def)
  have "my_pm_handler linux_hz100 0 3 0 [] =
       (1, [Printk KERN_INFO ''[mysuspend] %s: suspend\<newline>'' [Arg_s ''my_pm_handler'']])"
    using my_pm_handler_ack [OF d, of 3 0 0 "[]"] by (simp add: linux_hz100_def)
  moreover have "my_pm_handler linux_hz100 0 2 0 [] =
       (1, [Printk KERN_INFO ''[mysuspend] %s: resume\<newline>'' [Arg_s ''my_pm_handler'']])"
    using my_pm_handler_ack [OF d, of 2 0 0 "[]"] by (simp add: linux_hz100_def)
  moreover have "my_pm_handler linux_hz100 0 5 0 [] = (0, [])"
    using my_pm_handler_ack [OF d, of 5 0 0 "[]"] by (simp add: linux_hz100_def)
  ultimately show ?thesis using d by blast
qed

text \<open>
  C10: the acknowledgement and the log output of \<open>my_pm_handler\<close> are a function of
  the action code alone. Two invocations with the same action and different
  \<open>nfb\<close> and \<open>data\<close> arguments return the same acknowledgement and emit the same
  lines, also when they start from different traces.
\<close>

theorem my_pm_handler_depends_on_action_only:
  "my_pm_handler k nfb action data t = my_pm_handler k nfb' action data' t
   \<and> fst (my_pm_handler k nfb action data t) = fst (my_pm_handler k nfb' action data' t')
   \<and> drop (length t) (snd (my_pm_handler k nfb action data t)) =
       drop (length t') (snd (my_pm_handler k nfb' action data' t'))"
  by (simp add: my_pm_handler_def MY_DBG_def kcall_void_def Let_def)

section \<open>The periodic activities\<close>

text \<open>
  C7: a firing of each of the three handlers makes exactly two kernel calls, in this
  order: first the \<open>printk\<close> of one line whose arguments are the handler's own name
  (\<open>__func__\<close>) and \<open>tv_sec\<close> of \<open>getnstimeofday\<close>, the wall-clock time in whole
  seconds; then the call that arms the next firing one period from now
  (\<open>mod_timer\<close> at \<open>jiffies\<close> plus the period, \<open>schedule_delayed_work\<close> with the
  period as delay, \<open>alarm_start_range\<close> at \<open>ktime_get_real()\<close> plus the period). The
  handlers test nothing before re-arming, so this holds on every firing, and in
  particular whenever no stop is in progress.
\<close>

theorem handlers_log_then_rearm:
  "my_timer_handler k h data t =
     t @ [Printk KERN_INFO ''[mysuspend] %s: %lu\<newline>''
            [Arg_s ''my_timer_handler'', Arg_lu (ucast (tv_sec (getnstimeofday h)))],
          Mod_timer (jiffies h + msecs_to_jiffies k 1000)]
   \<and> my_delayed_work_handler k h work t =
     t @ [Printk KERN_INFO ''[mysuspend] %s: %lu\<newline>''
            [Arg_s ''my_delayed_work_handler'', Arg_lu (ucast (tv_sec (getnstimeofday h)))],
          Schedule_delayed_work (msecs_to_jiffies k 1000)]
   \<and> my_alarm_handler k h alarm t =
     t @ [Printk KERN_INFO ''[mysuspend] %s: %lu\<newline>''
            [Arg_s ''my_alarm_handler'', Arg_lu (ucast (tv_sec (getnstimeofday h)))],
          Alarm_start_range
            (ktime_add k (ktime_get_real h) (ns_to_ktime k 10000000000))
            (ktime_add k (ktime_get_real h) (ns_to_ktime k 10000000000))]"
  by (simp only: my_timer_handler_trace my_delayed_work_handler_trace
        my_alarm_handler_trace simp_thms)

text \<open>
  C8: the period is a constant of each activity: \<open>1 * 1000\<close> ms for the timer,
  \<open>1 * 1000\<close> ms for the delayed work, \<open>10 * 1000\<close> ms for the alarm. Every arming
  and every re-arming uses exactly the period of its own activity as the delay from now
  (the alarm's is handed over in nanoseconds), and there is no other arming: each start
  function makes one arming call and no other call but the alarm's \<open>alarm_init\<close>, each
  handler makes one arming call after its one log line, and the activity calls of
  \<open>my_init\<close> are those of the three start functions.
\<close>

theorem periods:
  "unat TIMER_PERIOD_MS = 1 * 1000
   \<and> unat WORK_PERIOD_MS = 1 * 1000
   \<and> unat ALARM_PERIOD_MS = 10 * 1000
   \<and> my_timer_start k h t =
       t @ [Mod_timer (jiffies h + msecs_to_jiffies k (ucast TIMER_PERIOD_MS))]
   \<and> my_timer_handler k h data t =
       t @ [Printk KERN_INFO ''[mysuspend] %s: %lu\<newline>''
              [Arg_s ''my_timer_handler'', Arg_lu (ucast (tv_sec (getnstimeofday h)))],
            Mod_timer (jiffies h + msecs_to_jiffies k (ucast TIMER_PERIOD_MS))]
   \<and> my_delayed_work_start k h t =
       t @ [Schedule_delayed_work (msecs_to_jiffies k (ucast WORK_PERIOD_MS))]
   \<and> my_delayed_work_handler k h work t =
       t @ [Printk KERN_INFO ''[mysuspend] %s: %lu\<newline>''
              [Arg_s ''my_delayed_work_handler'',
               Arg_lu (ucast (tv_sec (getnstimeofday h)))],
            Schedule_delayed_work (msecs_to_jiffies k (ucast WORK_PERIOD_MS))]
   \<and> my_alarm_shot k h t =
       t @ [Alarm_start_range
              (ktime_add k (ktime_get_real h) (ns_to_ktime k (ALARM_PERIOD_MS * 1000000)))
              (ktime_add k (ktime_get_real h) (ns_to_ktime k (ALARM_PERIOD_MS * 1000000)))]
   \<and> my_alarm_start k h t =
       t @ [Alarm_init ANDROID_ALARM_RTC_WAKEUP My_alarm_handler,
            Alarm_start_range
              (ktime_add k (ktime_get_real h) (ns_to_ktime k (ALARM_PERIOD_MS * 1000000)))
              (ktime_add k (ktime_get_real h) (ns_to_ktime k (ALARM_PERIOD_MS * 1000000)))]
   \<and> my_alarm_handler k h alarm t =
       t @ [Printk KERN_INFO ''[mysuspend] %s: %lu\<newline>''
              [Arg_s ''my_alarm_handler'', Arg_lu (ucast (tv_sec (getnstimeofday h)))],
            Alarm_start_range
              (ktime_add k (ktime_get_real h) (ns_to_ktime k (ALARM_PERIOD_MS * 1000000)))
              (ktime_add k (ktime_get_real h) (ns_to_ktime k (ALARM_PERIOD_MS * 1000000)))]
   \<and> filter is_activity_call (drop (length t) (snd (my_init k h t))) =
       [Schedule_delayed_work (msecs_to_jiffies k (ucast WORK_PERIOD_MS)),
        Mod_timer (jiffies h + msecs_to_jiffies k (ucast TIMER_PERIOD_MS)),
        Alarm_init ANDROID_ALARM_RTC_WAKEUP My_alarm_handler,
        Alarm_start_range
          (ktime_add k (ktime_get_real h) (ns_to_ktime k (ALARM_PERIOD_MS * 1000000)))
          (ktime_add k (ktime_get_real h) (ns_to_ktime k (ALARM_PERIOD_MS * 1000000)))]"
  by (simp add: period_values my_timer_start_trace my_timer_handler_trace
        my_delayed_work_start_trace my_delayed_work_handler_trace
        my_alarm_shot_trace my_alarm_start_trace my_alarm_handler_trace
        my_init_trace is_activity_call_def)

section \<open>The wake lock\<close>

text \<open>
  No callback of the module touches the wake lock, so whatever the kernel delivers
  between load and unload leaves the wake-lock calls of a trace as they were.
\<close>

lemma deliver_no_wake_lock:
  "filter is_wake_lock_call (deliver k e t) = filter is_wake_lock_call t"
  by (cases e)
    (simp_all add: my_timer_handler_trace my_delayed_work_handler_trace
       my_alarm_handler_trace my_pm_handler_def my_early_suspend_handler_def
       my_early_resume_handler_def MY_DBG_def kcall_void_def is_wake_lock_call_def Let_def)

lemma run_no_wake_lock:
  "filter is_wake_lock_call (run k es t) = filter is_wake_lock_call t"
  by (induction es arbitrary: t) (simp_all add: deliver_no_wake_lock)

lemma count_as_filter:
  "\<forall>x\<in>set xs. x = c \<longrightarrow> P x \<Longrightarrow> count_list xs c = count_list (filter P xs) c"
  by (induction xs) auto

text \<open>
  C9: across one lifecycle of the module (load, any sequence of callbacks, unload) the
  calls on the wake lock are exactly init, lock, unlock, destroy, in that order. So
  \<open>wake_lock\<close> is called exactly once, and that during \<open>my_init\<close>; \<open>wake_unlock\<close>
  exactly once, and that during \<open>my_exit\<close>; the lock is never acquired a second time,
  and it is destroyed only after it has been released.
\<close>

theorem wake_lock_pairing:
  "filter is_wake_lock_call (lifecycle k h es h') =
     [Wake_lock_init WAKE_LOCK_SUSPEND ''my_wake_lock'', Wake_lock, Wake_unlock,
      Wake_lock_destroy]
   \<and> count_list (lifecycle k h es h') Wake_lock = 1
   \<and> count_list (lifecycle k h es h') Wake_unlock = 1
   \<and> count_list (snd (my_init k h [])) Wake_lock = 1
   \<and> count_list (my_exit h' []) Wake_unlock = 1"
proof -
  have f: "filter is_wake_lock_call (lifecycle k h es h') =
     [Wake_lock_init WAKE_LOCK_SUSPEND ''my_wake_lock'', Wake_lock, Wake_unlock,
      Wake_lock_destroy]"
    by (simp add: lifecycle_def my_exit_trace run_no_wake_lock my_init_trace
          is_wake_lock_call_def)
  have "count_list (lifecycle k h es h') c =
          count_list (filter is_wake_lock_call (lifecycle k h es h')) c"
    if "is_wake_lock_call c" for c
    using that by (intro count_as_filter) simp
  then have "count_list (lifecycle k h es h') Wake_lock = 1"
    and "count_list (lifecycle k h es h') Wake_unlock = 1"
    by (simp_all add: f is_wake_lock_call_def)
  then show ?thesis
    using f by (simp add: my_init_trace my_exit_trace)
qed

end
